theory Spec2Isabelle
  imports Main "HOL-Library.AList" "HOL-Library.Sublist"
begin

section \<open>JavaScript values\<close>

text \<open>
  Request and response bodies are parsed JSON.  An object is an association list in
  insertion order; reading a property that is not there gives \<open>undefined\<close>, which is
  \<open>None\<close>.  Numbers are carried as integers: the proxy only ever tests a number for
  being zero and compares a length with 1.  A \<open>char\<close> stands for one code unit of a
  JavaScript string.
\<close>

datatype json =
    JNull
  | JBool bool
  | JNum int
  | JStr string
  | JArr "json list"
  | JObj "(string \<times> json) list"

type_synonym jsobject = "(string \<times> json) list"

text \<open>\<open>obj.key\<close>: the value of the property, \<open>None\<close> for \<open>undefined\<close>.\<close>

definition get_prop :: "jsobject \<Rightarrow> string \<Rightarrow> json option" where
  "get_prop obj key = map_of obj key"

text \<open>\<open>obj.key = v\<close>: an existing property keeps its place, a new one goes last.\<close>

definition set_prop :: "jsobject \<Rightarrow> string \<Rightarrow> json \<Rightarrow> jsobject" where
  "set_prop obj key v = AList.update key v obj"

text \<open>
  JavaScript's ToBoolean, as \<open>!x\<close>, \<open>x && y\<close>, \<open>x || y\<close> and \<open>if (x)\<close> apply it:
  \<open>undefined\<close>, \<open>null\<close>, \<open>false\<close>, \<open>0\<close> and the empty string are falsy, every array
  and object is truthy.
\<close>

fun truthy :: "json option \<Rightarrow> bool" where
  "truthy None = False"
| "truthy (Some JNull) = False"
| "truthy (Some (JBool b)) = b"
| "truthy (Some (JNum n)) = (n \<noteq> 0)"
| "truthy (Some (JStr s)) = (s \<noteq> [])"
| "truthy (Some (JArr xs)) = True"
| "truthy (Some (JObj kvs)) = True"

text \<open>
  A thrown \<open>Error\<close>: its \<open>name\<close> and its \<open>message\<close>.  \<open>toString\<close> is what a template
  literal \<open>`${error}`\<close> prints (\<open>Error.prototype.toString\<close>).
\<close>

datatype js_error = JsError (err_name: string) (err_message: string)

definition toString :: "js_error \<Rightarrow> string" where
  "toString e =
    (if err_name e = [] then err_message e
     else if err_message e = [] then err_name e
     else err_name e @ '': '' @ err_message e)"

subsection \<open>JSON.stringify of the error frames\<close>

definition hex_digit :: "nat \<Rightarrow> char" where
  "hex_digit n = ''0123456789abcdef'' ! (n mod 16)"

text \<open>One code unit inside a JSON string literal (QuoteJSONString).\<close>

definition escape_char :: "char \<Rightarrow> string" where
  "escape_char c =
    (if c = CHR 0x22 then [CHR 0x5C, CHR 0x22]
     else if c = CHR 0x5C then [CHR 0x5C, CHR 0x5C]
     else if c = CHR 0x08 then [CHR 0x5C, CHR ''b'']
     else if c = CHR 0x0C then [CHR 0x5C, CHR ''f'']
     else if c = CHR 0x0A then [CHR 0x5C, CHR ''n'']
     else if c = CHR 0x0D then [CHR 0x5C, CHR ''r'']
     else if c = CHR 0x09 then [CHR 0x5C, CHR ''t'']
     else if (of_char c :: nat) < 0x20
       then [CHR 0x5C, CHR ''u'', CHR ''0'', CHR ''0'',
             hex_digit (of_char c div 16), hex_digit (of_char c mod 16)]
     else [c])"

definition quote_json :: "string \<Rightarrow> string" where
  "quote_json s = CHR 0x22 # concat (map escape_char s) @ [CHR 0x22]"

text \<open>\<open>JSON.stringify({ error: { message: m } })\<close>.\<close>

definition stringify_error :: "string \<Rightarrow> string" where
  "stringify_error m =
     ''{'' @ quote_json ''error'' @ '':{'' @ quote_json ''message'' @ '':'' @ quote_json m @ ''}}''"

text \<open>The frame \<open>`data: ${JSON.stringify({ error: { message: m } })}\n\n`\<close>.\<close>

definition error_frame :: "string \<Rightarrow> string" where
  "error_frame m = ''data: '' @ stringify_error m @ [CHR 0x0A, CHR 0x0A]"

text \<open>The sentinel \<open>'data: [DONE]\n\n'\<close>.\<close>

definition done_frame :: string where
  "done_frame = ''data: [DONE]'' @ [CHR 0x0A, CHR 0x0A]"

section \<open>Configuration\<close>

text \<open>
  \<open>index.js\<close> reads its constants from \<open>../config-hunyuan.js\<close> and \<open>venus.js\<close> from
  \<open>../config-venus.js\<close>.  Neither file is part of the sources, so the constants are
  parameters of the model: every theorem holds for all their values.  The prefixes,
  the token, the workspace id and the model name are strings, the streaming default
  is a boolean; \<open>workspaceId\<close> of \<open>venus.js\<close> may be left out of its file.
\<close>

record config =
  TARGET_API_BASE_URL :: string
  WORKSPACE_ID :: string
  API_KEY_PREFIX :: string
  TARGET_API_KEY_PREFIX :: string
  modelName :: string
  enableStream :: bool

record venus_config =
  targetApiBaseUrl :: string
  targetApiKeyPrefix :: string
  apiKeyPrefix :: string
  token :: string
  workspaceId :: "string option"

section \<open>Header and auth translation\<close>

type_synonym headers = "(string \<times> string) list"

text \<open>
  \<open>processAuthHeader\<close> of \<open>index.js\<close>.  The argument is \<open>None\<close> when the caller passes
  \<open>undefined\<close>; \<open>authHeader || ''\<close> turns that, and the empty string, into \<open>''\<close>.
\<close>

definition processAuthHeader :: "config \<Rightarrow> string option \<Rightarrow> string" where
  "processAuthHeader cfg authHeader =
    (let apiKey = (case authHeader of None \<Rightarrow> [] | Some h \<Rightarrow> h);
         apiKey = (if prefix (API_KEY_PREFIX cfg) apiKey
                   then drop (length (API_KEY_PREFIX cfg)) apiKey else apiKey)
     in TARGET_API_KEY_PREFIX cfg @ apiKey)"

text \<open>
  \<open>processAuthHeader\<close> of \<open>venus.js\<close>: the prefix is stripped from the local \<open>apiKey\<close>
  as above, and the value returned is built from the configured \<open>token\<close>.
\<close>

definition processAuthHeader_venus :: "venus_config \<Rightarrow> string option \<Rightarrow> string" where
  "processAuthHeader_venus cfg authHeader =
    (let apiKey = (case authHeader of None \<Rightarrow> [] | Some h \<Rightarrow> h);
         apiKey = (if prefix (apiKeyPrefix cfg) apiKey
                   then drop (length (apiKeyPrefix cfg)) apiKey else apiKey)
     in targetApiKeyPrefix cfg @ token cfg)"

text \<open>\<open>buildHeaders\<close> of \<open>index.js\<close>; \<open>contentType\<close> defaults to \<open>'application/json'\<close>.\<close>

definition buildHeaders :: "config \<Rightarrow> string option \<Rightarrow> string \<Rightarrow> headers" where
  "buildHeaders cfg authHeader contentType =
    [(''Authorization'', processAuthHeader cfg authHeader),
     (''Wsid'', WORKSPACE_ID cfg),
     (''Content-Type'', contentType)]"

text \<open>\<open>buildHeaders\<close> of \<open>venus.js\<close>: \<open>Wsid\<close> only for a truthy \<open>workspaceId\<close>.\<close>

definition buildHeaders_venus :: "venus_config \<Rightarrow> string option \<Rightarrow> string \<Rightarrow> headers" where
  "buildHeaders_venus cfg authHeader contentType =
    (let hs = [(''Authorization'', processAuthHeader_venus cfg authHeader),
               (''Content-Type'', contentType)]
     in case workspaceId cfg of
          None \<Rightarrow> hs
        | Some w \<Rightarrow> if w = [] then hs else AList.update ''Wsid'' w hs)"

section \<open>The HTTP client and the Express response\<close>

text \<open>
  One call of the axios instance \<open>httpClient\<close>: \<open>post(url, body, options)\<close>,
  \<open>get(url, options)\<close> or \<open>request(options)\<close>.  \<open>call_data\<close> is \<open>None\<close> when no body is
  given (\<open>null\<close>); \<open>call_timeout\<close> is in milliseconds, \<open>None\<close> when the call leaves the
  instance's own 60000 in place.
\<close>

record http_call =
  call_verb :: string
  call_url :: string
  call_headers :: headers
  call_data :: "json option"
  call_params :: "(string \<times> string) list"
  call_stream :: bool
  call_timeout :: "nat option"

text \<open>
  A Node \<open>Readable\<close> as its listeners see it: zero or more \<open>'data'\<close> events with one
  chunk each, then \<open>'end'\<close>, or \<open>'error'\<close>, or nothing yet.
\<close>

datatype outcome = Ended | Errored js_error | Pending

datatype readable = Readable "string list" outcome

text \<open>
  The response axios resolves with.  \<open>response.data\<close> is the parsed body, or the
  stream when the call asked for \<open>responseType: 'stream'\<close>; the record carries both
  readings and each caller takes the one its call selects.
\<close>

record http_response =
  resp_status :: nat
  resp_statusText :: string
  resp_headers :: headers
  resp_data :: json
  resp_stream :: readable

text \<open>The awaited promise either resolves or rejects with an error.\<close>

datatype http_result = Rejected js_error | Resolved http_response

type_synonym http_client = "http_call \<Rightarrow> http_result"

text \<open>
  What the Express response \<open>res\<close> has received so far: the status code, the headers
  set, and the body parts in order, one per \<open>write\<close>, \<open>json\<close> or \<open>send\<close>.  \<open>ended\<close>
  holds once the response is finished and the connection is released.
  \<open>res_headers\<close> records the headers a handler sets by name; those Express adds by
  itself inside \<open>json\<close> and \<open>send\<close> are left out.
\<close>

datatype body_part = Write string | Json json | Send json

record response =
  statusCode :: nat
  res_headers :: headers
  written :: "body_part list"
  ended :: bool

definition fresh_response :: response where
  "fresh_response = \<lparr>statusCode = 200, res_headers = [], written = [], ended = False\<rparr>"

definition res_status :: "nat \<Rightarrow> response \<Rightarrow> response" where
  "res_status code res = res\<lparr>statusCode := code\<rparr>"

definition res_set :: "headers \<Rightarrow> response \<Rightarrow> response" where
  "res_set hs res =
     res\<lparr>res_headers := fold (\<lambda>(name, v) acc. AList.update name v acc) hs (res_headers res)\<rparr>"

definition res_writeHead :: "nat \<Rightarrow> headers \<Rightarrow> response \<Rightarrow> response" where
  "res_writeHead code hs res = res_set hs (res_status code res)"

definition res_write :: "string \<Rightarrow> response \<Rightarrow> response" where
  "res_write chunk res = res\<lparr>written := written res @ [Write chunk]\<rparr>"

definition res_end :: "response \<Rightarrow> response" where
  "res_end res = res\<lparr>ended := True\<rparr>"

definition res_json :: "json \<Rightarrow> response \<Rightarrow> response" where
  "res_json j res = res\<lparr>written := written res @ [Json j], ended := True\<rparr>"

definition res_send :: "json \<Rightarrow> response \<Rightarrow> response" where
  "res_send d res = res\<lparr>written := written res @ [Send d], ended := True\<rparr>"

text \<open>The body of every \<open>res.status(500).json({ error: { message, type: 'server_error' } })\<close>.\<close>

definition server_error :: "string \<Rightarrow> json" where
  "server_error m = JObj [(''error'', JObj [(''message'', JStr m), (''type'', JStr ''server_error'')])]"

section \<open>Forwarding\<close>

text \<open>
  A forwarding function returns the calls it made on the HTTP client, in order,
  beside its own result.
\<close>

text \<open>The value \<open>handleNonStreaming\<close> returns.\<close>

record forwarded =
  fwd_data :: json
  fwd_status :: nat
  fwd_headers :: headers

text \<open>\<open>httpClient.post(targetUrl, body, { headers, timeout: 60000 })\<close>.\<close>

definition post_call :: "string \<Rightarrow> headers \<Rightarrow> jsobject \<Rightarrow> http_call" where
  "post_call targetUrl hs body =
     \<lparr>call_verb = ''POST'', call_url = targetUrl, call_headers = hs,
      call_data = Some (JObj body), call_params = [], call_stream = False,
      call_timeout = Some 60000\<rparr>"

text \<open>\<open>httpClient.post(targetUrl, body, { headers, responseType: 'stream', timeout: 0 })\<close>.\<close>

definition post_stream_call :: "string \<Rightarrow> headers \<Rightarrow> jsobject \<Rightarrow> http_call" where
  "post_stream_call targetUrl hs body =
     \<lparr>call_verb = ''POST'', call_url = targetUrl, call_headers = hs,
      call_data = Some (JObj body), call_params = [], call_stream = True,
      call_timeout = Some 0\<rparr>"

definition handleNonStreaming ::
  "http_client \<Rightarrow> string \<Rightarrow> headers \<Rightarrow> jsobject \<Rightarrow> http_call list \<times> (js_error + forwarded)" where
  "handleNonStreaming httpClient targetUrl hs body =
    (let call = post_call targetUrl hs body
     in ([call],
         case httpClient call of
           Resolved response \<Rightarrow>
             Inr \<lparr>fwd_data = resp_data response, fwd_status = resp_status response,
                  fwd_headers = [(''Content-Type'', ''application/json'')]\<rparr>
         | Rejected error \<Rightarrow>
             Inl (JsError ''Error'' (''Error forwarding request: '' @ toString error))))"

text \<open>The three listeners \<open>handleStreaming\<close> puts on \<open>response.data\<close>.\<close>

definition on_data :: "string \<Rightarrow> response \<Rightarrow> response" where
  "on_data chunk res = res_write chunk res"

definition on_end :: "response \<Rightarrow> response" where
  "on_end res = res_end res"

definition on_error :: "js_error \<Rightarrow> response \<Rightarrow> response" where
  "on_error error res =
     res_end (res_write done_frame
       (res_write (error_frame (''Streaming error: '' @ err_message error)) res))"

text \<open>The stream fires its events and each runs its listener.\<close>

fun relay :: "readable \<Rightarrow> response \<Rightarrow> response" where
  "relay (Readable chunks out) res =
    (let res' = foldl (\<lambda>r chunk. on_data chunk r) res chunks
     in case out of
          Ended \<Rightarrow> on_end res'
        | Errored error \<Rightarrow> on_error error res'
        | Pending \<Rightarrow> res')"

definition sse_headers :: headers where
  "sse_headers = [(''Content-Type'', ''text/event-stream''), (''Cache-Control'', ''no-cache''),
                  (''Connection'', ''keep-alive'')]"

text \<open>\<open>handleStreaming\<close>, the same text in \<open>index.js\<close> and in \<open>venus.js\<close>.\<close>

definition handleStreaming ::
  "http_client \<Rightarrow> string \<Rightarrow> headers \<Rightarrow> jsobject \<Rightarrow> response \<Rightarrow> http_call list \<times> response" where
  "handleStreaming httpClient targetUrl hs body res =
    (let body = set_prop body ''stream'' (JBool True);
         call = post_stream_call targetUrl hs body
     in ([call],
         case httpClient call of
           Resolved response \<Rightarrow>
             if resp_status response \<noteq> 200 then
               res_end (res_write
                 (error_frame (''Error from target API: '' @ resp_statusText response))
                 (res_status (resp_status response) res))
             else relay (resp_stream response) (res_writeHead 200 sse_headers res)
         | Rejected error \<Rightarrow>
             res_end (res_write done_frame
               (res_write (error_frame (''Streaming error: '' @ err_message error))
                 (res_status 500 res)))))"

section \<open>The route handlers of \<open>index.js\<close>\<close>

text \<open>
  The request as Express hands it over.  Node stores header names in lower case.
  \<open>express.json()\<close> leaves an object in \<open>req.body\<close>, the empty one when the request
  has no JSON body.
\<close>

record request =
  req_verb :: string
  req_path :: string
  req_headers :: headers
  req_query :: "(string \<times> string) list"
  req_body :: jsobject

text \<open>\<open>req.headers.authorization || ''\<close>.\<close>

definition authorization :: "request \<Rightarrow> string" where
  "authorization req = (case map_of (req_headers req) ''authorization'' of None \<Rightarrow> [] | Some v \<Rightarrow> v)"

text \<open>
  \<open>x.length\<close> of a truthy value: arrays and strings have one of their own, an object
  has it only as a property, numbers and booleans have none.
\<close>

fun js_length :: "json \<Rightarrow> json option" where
  "js_length (JArr xs) = Some (JNum (int (length xs)))"
| "js_length (JStr s) = Some (JNum (int (length s)))"
| "js_length (JObj kvs) = get_prop kvs ''length''"
| "js_length (JNum n) = None"
| "js_length (JBool b) = None"
| "js_length JNull = None"

text \<open>
  \<open>...x\<close> inside an array literal: an array gives its elements, a string its
  characters, anything else is not iterable and throws a \<open>TypeError\<close> (whose message
  depends on the engine).
\<close>

fun spread :: "json \<Rightarrow> js_error + json list" where
  "spread (JArr xs) = Inr xs"
| "spread (JStr s) = Inr (map (\<lambda>c. JStr [c]) s)"
| "spread (JObj kvs) = Inl (JsError ''TypeError'' ''body.messages is not iterable'')"
| "spread (JNum n) = Inl (JsError ''TypeError'' ''body.messages is not iterable'')"
| "spread (JBool b) = Inl (JsError ''TypeError'' ''body.messages is not iterable'')"
| "spread JNull = Inl (JsError ''TypeError'' ''body.messages is not iterable'')"

text \<open>The object literal \<open>{ content: '', role: 'system' }\<close>.\<close>

definition system_message :: json where
  "system_message = JObj [(''content'', JStr []), (''role'', JStr ''system'')]"

text \<open>
  Lines 153 to 167 of \<open>index.js\<close>, the four steps on \<open>req.body\<close> at the head of the
  chat handler.  \<open>uuid\<close> is what \<open>uuidv4()\<close> returns for this request.
\<close>

definition normalize_body :: "config \<Rightarrow> string \<Rightarrow> jsobject \<Rightarrow> js_error + jsobject" where
  "normalize_body cfg uuid body =
    (let body = (if \<not> truthy (get_prop body ''query_id'')
                 then set_prop body ''query_id'' (JStr (''query_'' @ uuid)) else body)
     in case (case get_prop body ''messages'' of
                None \<Rightarrow> Inr body
              | Some messages \<Rightarrow>
                  if truthy (Some messages) \<and> js_length messages = Some (JNum 1)
                  then (case spread messages of
                          Inl error \<Rightarrow> Inl error
                        | Inr ms \<Rightarrow> Inr (set_prop body ''messages'' (JArr (system_message # ms))))
                  else Inr body) of
          Inl error \<Rightarrow> Inl error
        | Inr body \<Rightarrow>
            (let body = (if \<not> truthy (get_prop body ''model'')
                         then set_prop body ''model'' (JStr (modelName cfg)) else body);
                 body = (if \<not> truthy (get_prop body ''stream'')
                         then set_prop body ''stream'' (JBool (enableStream cfg)) else body)
             in Inr body))"

text \<open>The \<open>catch\<close> block of the two POST handlers.\<close>

definition catch_error :: "js_error \<Rightarrow> response \<Rightarrow> response" where
  "catch_error error res = res_json (server_error (err_message error)) (res_status 500 res)"

text \<open>The \<open>catch\<close> block of the models handler and of the catch-all.\<close>

definition catch_forwarding_error :: "js_error \<Rightarrow> response \<Rightarrow> response" where
  "catch_forwarding_error error res =
     res_json (server_error (''Error forwarding request: '' @ err_message error)) (res_status 500 res)"

text \<open>\<open>if (stream) ... else ...\<close>, the same in both POST handlers.\<close>

definition dispatch ::
  "http_client \<Rightarrow> string \<Rightarrow> headers \<Rightarrow> jsobject \<Rightarrow> response \<Rightarrow> http_call list \<times> response" where
  "dispatch httpClient targetUrl hs body res =
    (if truthy (get_prop body ''stream'') then handleStreaming httpClient targetUrl hs body res
     else (case handleNonStreaming httpClient targetUrl hs body of
             (calls, Inr result) \<Rightarrow>
               (calls, res_json (fwd_data result)
                         (res_set (fwd_headers result) (res_status (fwd_status result) res)))
           | (calls, Inl error) \<Rightarrow> (calls, catch_error error res)))"

text \<open>\<open>app.post('/v1/chat/completions', ...)\<close>.\<close>

definition post_chat_completions ::
  "config \<Rightarrow> http_client \<Rightarrow> string \<Rightarrow> request \<Rightarrow> response \<Rightarrow> http_call list \<times> response" where
  "post_chat_completions cfg httpClient uuid req res =
    (case normalize_body cfg uuid (req_body req) of
       Inl error \<Rightarrow> ([], catch_error error res)
     | Inr body \<Rightarrow>
         dispatch httpClient (TARGET_API_BASE_URL cfg @ ''/chat/completions'')
           (buildHeaders cfg (Some (authorization req)) ''application/json'') body res)"

text \<open>\<open>app.post('/v1/completions', ...)\<close>: \<open>req.body\<close> goes on as it came.\<close>

definition post_completions ::
  "config \<Rightarrow> http_client \<Rightarrow> request \<Rightarrow> response \<Rightarrow> http_call list \<times> response" where
  "post_completions cfg httpClient req res =
     dispatch httpClient (TARGET_API_BASE_URL cfg @ ''/v1/completions'')
       (buildHeaders cfg (Some (authorization req)) ''application/json'') (req_body req) res"

text \<open>\<open>app.get('/v1/models', ...)\<close>.\<close>

definition get_models ::
  "config \<Rightarrow> http_client \<Rightarrow> request \<Rightarrow> response \<Rightarrow> http_call list \<times> response" where
  "get_models cfg httpClient req res =
    (let hs = AList.delete ''Content-Type''
                (buildHeaders cfg (Some (authorization req)) ''application/json'');
         call = \<lparr>call_verb = ''GET'', call_url = TARGET_API_BASE_URL cfg @ ''/v1/models'',
                  call_headers = hs, call_data = None, call_params = [], call_stream = False,
                  call_timeout = None\<rparr>
     in ([call],
         case httpClient call of
           Resolved response \<Rightarrow>
             res_json (resp_data response)
               (res_set [(''Content-Type'', ''application/json'')]
                  (res_status (resp_status response) res))
         | Rejected error \<Rightarrow> catch_forwarding_error error res))"

text \<open>Lines 263 to 268: the headers the catch-all sends on.\<close>

definition catch_all_headers :: "config \<Rightarrow> request \<Rightarrow> headers" where
  "catch_all_headers cfg req =
    (let hs = req_headers req;
         hs = AList.update ''authorization'' (processAuthHeader cfg (Some (authorization req))) hs;
         hs = AList.update ''wsid'' (WORKSPACE_ID cfg) hs
     in AList.delete ''host'' hs)"

text \<open>The same lines of \<open>venus.js\<close>.\<close>

definition catch_all_headers_venus :: "venus_config \<Rightarrow> request \<Rightarrow> headers" where
  "catch_all_headers_venus cfg req =
    (let hs = req_headers req;
         hs = AList.update ''authorization''
                (processAuthHeader_venus cfg (Some (authorization req))) hs;
         hs = (case workspaceId cfg of
                 None \<Rightarrow> hs
               | Some w \<Rightarrow> if w = [] then hs else AList.update ''wsid'' w hs)
     in AList.delete ''host'' hs)"

text \<open>\<open>app.all('*', ...)\<close>.\<close>

definition catch_all ::
  "config \<Rightarrow> http_client \<Rightarrow> request \<Rightarrow> response \<Rightarrow> http_call list \<times> response" where
  "catch_all cfg httpClient req res =
    (let path = (if prefix ''/'' (req_path req) then drop 1 (req_path req) else req_path req);
         data = (if req_verb req \<noteq> ''GET'' \<and> req_verb req \<noteq> ''HEAD''
                 then Some (JObj (req_body req)) else None);
         call = \<lparr>call_verb = req_verb req, call_url = TARGET_API_BASE_URL cfg @ ''/'' @ path,
                  call_headers = catch_all_headers cfg req, call_data = data,
                  call_params = req_query req, call_stream = False, call_timeout = None\<rparr>
     in ([call],
         case httpClient call of
           Resolved response \<Rightarrow>
             res_send (resp_data response)
               (res_set (resp_headers response) (res_status (resp_status response) res))
         | Rejected error \<Rightarrow> catch_forwarding_error error res))"

text \<open>The four routes, in the order \<open>index.js\<close> registers them.\<close>

datatype endpoint = ChatCompletions | Completions | Models | CatchAll

fun handle ::
  "endpoint \<Rightarrow> config \<Rightarrow> http_client \<Rightarrow> string \<Rightarrow> request \<Rightarrow> response \<Rightarrow> http_call list \<times> response" where
  "handle ChatCompletions cfg httpClient uuid req res = post_chat_completions cfg httpClient uuid req res"
| "handle Completions cfg httpClient uuid req res = post_completions cfg httpClient req res"
| "handle Models cfg httpClient uuid req res = get_models cfg httpClient req res"
| "handle CatchAll cfg httpClient uuid req res = catch_all cfg httpClient req res"

text \<open>
  Whether a route takes the streaming branch: the test \<open>if (stream)\<close> of the two POST
  handlers; the models route and the catch-all never stream.
\<close>

fun takes_streaming_branch :: "endpoint \<Rightarrow> config \<Rightarrow> string \<Rightarrow> request \<Rightarrow> bool" where
  "takes_streaming_branch ChatCompletions cfg uuid req =
     (case normalize_body cfg uuid (req_body req) of
        Inl error \<Rightarrow> False
      | Inr body \<Rightarrow> truthy (get_prop body ''stream''))"
| "takes_streaming_branch Completions cfg uuid req = truthy (get_prop (req_body req) ''stream'')"
| "takes_streaming_branch Models cfg uuid req = False"
| "takes_streaming_branch CatchAll cfg uuid req = False"


section \<open>Header names without regard to case\<close>

text \<open>
  HTTP header names are case-insensitive, and Node hands \<open>req.headers\<close> over with
  every name in lower case and no name twice.  \<open>lower_case\<close> is \<open>toLowerCase\<close> on
  the ASCII letters a header name is made of.
\<close>

definition lower_char :: "char \<Rightarrow> char" where
  "lower_char c =
     (case map_of (zip ''ABCDEFGHIJKLMNOPQRSTUVWXYZ'' ''abcdefghijklmnopqrstuvwxyz'') c of
        None \<Rightarrow> c
      | Some l \<Rightarrow> l)"

definition lower_case :: "string \<Rightarrow> string" where
  "lower_case s = map lower_char s"

definition node_headers :: "headers \<Rightarrow> bool" where
  "node_headers hs =
     (distinct (map fst hs) \<and> list_all (\<lambda>name. lower_case name = name) (map fst hs))"

section \<open>Concrete inputs\<close>

definition example_config :: config where
  "example_config =
     \<lparr>TARGET_API_BASE_URL = ''http://upstream'', WORKSPACE_ID = ''ws-1'',
      API_KEY_PREFIX = ''Bearer sk-'', TARGET_API_KEY_PREFIX = ''Bearer up-'',
      modelName = ''hunyuan'', enableStream = True\<rparr>"

definition user_message :: json where
  "user_message = JObj [(''role'', JStr ''user''), (''content'', JStr ''hi'')]"

definition example_request :: request where
  "example_request =
     \<lparr>req_verb = ''POST'', req_path = ''/v1/chat/completions'',
      req_headers = [(''host'', ''proxy.local''), (''authorization'', ''Bearer sk-ABC''),
                     (''content-type'', ''application/json'')],
      req_query = [], req_body = [(''messages'', JArr [user_message])]\<rparr>"

text \<open>axios rejects: the upstream answered 404.\<close>

definition rejecting_client :: http_client where
  "rejecting_client =
     (\<lambda>call. Rejected (JsError ''AxiosError'' ''Request failed with status code 404''))"

text \<open>
  The upstream answers 204.  The axios instance keeps the default \<open>validateStatus\<close>,
  which resolves every status from 200 to 299, so this response reaches the test
  \<open>response.status !== 200\<close>.
\<close>

definition no_content_client :: http_client where
  "no_content_client =
     (\<lambda>call. Resolved \<lparr>resp_status = 204, resp_statusText = ''No Content'', resp_headers = [],
                         resp_data = JNull, resp_stream = Readable [] Ended\<rparr>)"



section \<open>Basic facts\<close>

lemma get_set_prop:
  "get_prop (set_prop obj k v) k' = (if k' = k then Some v else get_prop obj k')"
  by (simp add: get_prop_def set_prop_def update_conv')


lemma pump_chunks:
  "foldl (\<lambda>r chunk. on_data chunk r) res chunks
     = res\<lparr>written := written res @ map Write chunks\<rparr>"
  by (induction chunks arbitrary: res) (simp_all add: on_data_def res_write_def)


lemma relay_errored:
  "relay (Readable chunks (Errored error)) res =
     res\<lparr>written := written res @ map Write chunks
            @ [Write (error_frame (''Streaming error: '' @ err_message error)), Write done_frame],
         ended := True\<rparr>"
  by (simp add: pump_chunks on_error_def res_end_def res_write_def)

lemma relay_pending:
  "relay (Readable chunks Pending) res = res\<lparr>written := written res @ map Write chunks\<rparr>"
  by (simp add: pump_chunks)

section \<open>Auth translation\<close>

text \<open>
  Claim C2.  In \<open>index.js\<close>, the entry point that passes the client's token through,
  an inbound \<open>Authorization\<close> value made of the client prefix and a rest is translated
  to the upstream prefix followed by the same rest; with client prefix \<open>Bearer sk-\<close>
  and upstream prefix \<open>Bearer up-\<close>, the value \<open>Bearer sk-ABC\<close> becomes
  \<open>Bearer up-ABC\<close>.
\<close>

theorem processAuthHeader_passthrough:
  "processAuthHeader cfg (Some (API_KEY_PREFIX cfg @ rest)) = TARGET_API_KEY_PREFIX cfg @ rest
   \<and> processAuthHeader
         (cfg\<lparr>API_KEY_PREFIX := ''Bearer sk-'', TARGET_API_KEY_PREFIX := ''Bearer up-''\<rparr>)
         (Some ''Bearer sk-ABC'') = ''Bearer up-ABC''"
  by (simp add: processAuthHeader_def)

text \<open>A value that does not start with the client prefix goes through whole.\<close>

lemma processAuthHeader_no_prefix:
  "\<not> prefix (API_KEY_PREFIX cfg) h \<Longrightarrow>
     processAuthHeader cfg (Some h) = TARGET_API_KEY_PREFIX cfg @ h"
  by (simp add: processAuthHeader_def)

text \<open>
  Claim C10.  In \<open>venus.js\<close> the translated value does not depend on the inbound
  header: for any two inbound values, absent ones included, \<open>processAuthHeader\<close>
  returns the same string, the upstream prefix followed by the configured token.
\<close>

theorem processAuthHeader_venus_constant:
  "processAuthHeader_venus cfg h1 = processAuthHeader_venus cfg h2
   \<and> processAuthHeader_venus cfg h1 = targetApiKeyPrefix cfg @ token cfg"
  by (simp add: processAuthHeader_venus_def Let_def)

section \<open>The request normalizer\<close>

text \<open>
  Claim C4.  When \<open>messages\<close> is an array, normalization succeeds; an array of exactly
  one element becomes the two-element array whose element 0 is the object with
  \<open>content\<close> the empty string and \<open>role\<close> the string \<open>system\<close>, and whose element 1
  is the original element; an array of any other length stays as it is.
\<close>

theorem normalize_messages:
  assumes "get_prop body ''messages'' = Some (JArr ms)"
  shows "\<exists>body'. normalize_body cfg uuid body = Inr body'
     \<and> get_prop body' ''messages''
         = Some (JArr (if length ms = 1
                       then [JObj [(''content'', JStr ''''), (''role'', JStr ''system'')], ms ! 0]
                       else ms))"
proof (cases ms)
  case Nil
  with assms show ?thesis
    by (simp add: normalize_body_def Let_def get_set_prop)
next
  case (Cons m rest)
  with assms show ?thesis
    by (cases rest)
       (simp_all add: normalize_body_def Let_def get_set_prop system_message_def)
qed

theorem normalize_messages_witness:
  "get_prop (req_body example_request) ''messages''
     = Some (JArr [JObj [(''role'', JStr ''user''), (''content'', JStr ''hi'')]])
   \<and> normalize_body example_config ''u'' (req_body example_request)
     = Inr [(''messages'',
             JArr [JObj [(''content'', JStr ''''), (''role'', JStr ''system'')],
                   JObj [(''role'', JStr ''user''), (''content'', JStr ''hi'')]]),
            (''query_id'', JStr ''query_u''), (''model'', JStr ''hunyuan''),
            (''stream'', JBool True)]"
  using normalize_messages [of "req_body example_request" "[user_message]" example_config "''u''"]
  by (simp add: normalize_body_def example_config_def example_request_def get_prop_def
        set_prop_def system_message_def user_message_def)

text \<open>
  Claim C5, amended.  After normalization \<open>stream\<close> holds the configured default
  exactly when the body's \<open>stream\<close> was absent or falsy (\<open>false\<close>, \<open>null\<close>, \<open>0\<close>, \<open>''\<close>); a
  truthy \<open>stream\<close> keeps the value the client supplied.
\<close>

theorem normalize_stream:
  assumes "normalize_body cfg uuid body = Inr body'"
  shows "get_prop body' ''stream'' =
          (if truthy (get_prop body ''stream'') then get_prop body ''stream''
           else Some (JBool (enableStream cfg)))"
  using assms
  by (auto simp add: normalize_body_def Let_def get_set_prop
        split: option.splits if_splits sum.splits)

theorem normalize_stream_witness:
  "normalize_body example_config ''u'' [(''stream'', JNum 0)]
      = Inr [(''stream'', JBool True), (''query_id'', JStr ''query_u''), (''model'', JStr ''hunyuan'')]
   \<and> normalize_body example_config ''u'' [(''stream'', JStr ''yes'')]
      = Inr [(''stream'', JStr ''yes''), (''query_id'', JStr ''query_u''), (''model'', JStr ''hunyuan'')]"
  using normalize_stream [of example_config "''u''" "[(''stream'', JNum 0)]"]
        normalize_stream [of example_config "''u''" "[(''stream'', JStr ''yes'')]"]
  by (simp add: normalize_body_def example_config_def get_prop_def set_prop_def)

text \<open>
  Claim C5 as stated fails: with the default set to streaming, a body that supplies
  \<open>stream: false\<close> leaves normalization with \<open>stream: true\<close>.
\<close>

theorem normalize_stream_false_overridden:
  "normalize_body example_config ''u'' [(''stream'', JBool False)]
     = Inr [(''stream'', JBool True), (''query_id'', JStr ''query_u''), (''model'', JStr ''hunyuan'')]"
  by (simp add: normalize_body_def example_config_def get_prop_def set_prop_def)

text \<open>The other two defaults, for the record of what normalization does.\<close>

lemma normalize_query_id:
  assumes "normalize_body cfg uuid body = Inr body'"
  shows "get_prop body' ''query_id'' =
          (if truthy (get_prop body ''query_id'') then get_prop body ''query_id''
           else Some (JStr (''query_'' @ uuid)))"
  using assms
  by (auto simp add: normalize_body_def Let_def get_set_prop
        split: option.splits if_splits sum.splits)

lemma normalize_model:
  assumes "normalize_body cfg uuid body = Inr body'"
  shows "get_prop body' ''model'' =
          (if truthy (get_prop body ''model'') then get_prop body ''model''
           else Some (JStr (modelName cfg)))"
  using assms
  by (auto simp add: normalize_body_def Let_def get_set_prop
        split: option.splits if_splits sum.splits)

section \<open>The streaming path\<close>

text \<open>
  Claim C7.  \<open>handleStreaming\<close> makes exactly one upstream call, and the body of that
  call has \<open>stream\<close> equal to \<open>true\<close>, whatever the body held before.
\<close>

theorem handleStreaming_forces_stream:
  "map (\<lambda>call. case call_data call of
                  Some (JObj sent) \<Rightarrow> get_prop sent ''stream''
                | _ \<Rightarrow> None)
       (fst (handleStreaming httpClient targetUrl hs body res))
     = [Some (JBool True)]"
  by (simp add: handleStreaming_def Let_def post_stream_call_def get_set_prop)



text \<open>
  The two failure paths that close with the error frame and the sentinel: the call
  is rejected, or the stream fails after the relay has begun.
\<close>

lemma handleStreaming_rejected:
  assumes "httpClient (post_stream_call targetUrl hs (set_prop body ''stream'' (JBool True)))
             = Rejected error"
  shows "snd (handleStreaming httpClient targetUrl hs body res)
           = res\<lparr>statusCode := 500,
                  written := written res
                    @ [Write (error_frame (''Streaming error: '' @ err_message error)),
                       Write done_frame],
                  ended := True\<rparr>"
  using assms
  by (simp add: handleStreaming_def Let_def res_end_def res_write_def res_status_def)

lemma handleStreaming_midstream_error:
  assumes "httpClient (post_stream_call targetUrl hs (set_prop body ''stream'' (JBool True)))
             = Resolved response"
      and "resp_status response = 200"
      and "resp_stream response = Readable chunks (Errored error)"
  shows "snd (handleStreaming httpClient targetUrl hs body res)
           = (res_writeHead 200 sse_headers res)
               \<lparr>written := written res @ map Write chunks
                    @ [Write (error_frame (''Streaming error: '' @ err_message error)),
                       Write done_frame],
                ended := True\<rparr>"
  using assms
  by (simp add: handleStreaming_def Let_def relay_errored res_writeHead_def res_set_def
        res_status_def del: relay.simps)

text \<open>The third failure path, a resolved response whose status is not 200.\<close>

lemma handleStreaming_non200:
  assumes "httpClient (post_stream_call targetUrl hs (set_prop body ''stream'' (JBool True)))
             = Resolved response"
      and "resp_status response \<noteq> 200"
  shows "snd (handleStreaming httpClient targetUrl hs body res)
           = res\<lparr>statusCode := resp_status response,
                  written := written res
                    @ [Write (error_frame (''Error from target API: '' @ resp_statusText response))],
                  ended := True\<rparr>"
  using assms
  by (simp add: handleStreaming_def Let_def res_end_def res_write_def res_status_def)

lemma error_frame_not_done: "error_frame m \<noteq> done_frame"
  by (simp add: error_frame_def done_frame_def stringify_error_def)

text \<open>
  Claim C1, at the input where the code departs from it.  The upstream answers the
  streaming call with status 204: \<open>handleStreaming\<close> writes one error frame and ends
  the response, and the sentinel \<open>data: [DONE]\<close> is never written.
\<close>

theorem handleStreaming_non200_omits_sentinel:
  "snd (handleStreaming no_content_client ''http://upstream/chat/completions'' [] []
          fresh_response)
     = \<lparr>statusCode = 204, res_headers = [],
         written = [Write (error_frame ''Error from target API: No Content'')], ended = True\<rparr>
   \<and> Write done_frame \<notin> set (written (snd (handleStreaming no_content_client
          ''http://upstream/chat/completions'' [] [] fresh_response)))"
  by (simp add: handleStreaming_def Let_def no_content_client_def fresh_response_def
        res_end_def res_write_def res_status_def error_frame_not_done [symmetric])

section \<open>The routes\<close>

lemma dispatch_data:
  "map call_data (fst (dispatch httpClient targetUrl hs body res))
     = [Some (JObj (if truthy (get_prop body ''stream'')
                    then set_prop body ''stream'' (JBool True) else body))]"
  by (simp add: dispatch_def handleStreaming_def handleNonStreaming_def Let_def
        post_call_def post_stream_call_def split: sum.splits)

text \<open>
  On the streaming branch of either POST route the body that goes upstream has
  \<open>stream: true\<close>, also when the client sent another truthy value.
\<close>

lemma streaming_branch_forces_stream:
  assumes "ep = ChatCompletions \<or> ep = Completions"
      and "takes_streaming_branch ep cfg uuid req"
  shows "map (\<lambda>call. case call_data call of
                        Some (JObj sent) \<Rightarrow> get_prop sent ''stream''
                      | _ \<Rightarrow> None)
             (fst (handle ep cfg httpClient uuid req res))
           = [Some (JBool True)]"
  using assms
  by (auto simp add: post_chat_completions_def post_completions_def dispatch_def
        handleStreaming_def Let_def post_stream_call_def get_set_prop split: sum.splits)

text \<open>
  Claim C6, amended.  The four normalization steps run on the chat route only.  The
  chat route sends on the normalized body; \<open>POST /v1/completions\<close> sends on
  \<open>req.body\<close> as it came; the models route sends no body; the catch-all sends
  \<open>req.body\<close> as it came, or nothing for GET and HEAD.  On the streaming branch of
  the two POST routes \<open>handleStreaming\<close> then sets \<open>stream\<close> to \<open>true\<close>.
\<close>

theorem normalizer_only_on_chat:
  "map call_data (fst (handle ChatCompletions cfg httpClient uuid req res))
     = (case normalize_body cfg uuid (req_body req) of
          Inl error \<Rightarrow> []
        | Inr body \<Rightarrow> [Some (JObj (if truthy (get_prop body ''stream'')
                                  then set_prop body ''stream'' (JBool True) else body))])
   \<and> map call_data (fst (handle Completions cfg httpClient uuid req res))
     = [Some (JObj (if truthy (get_prop (req_body req) ''stream'')
                    then set_prop (req_body req) ''stream'' (JBool True) else req_body req))]
   \<and> map call_data (fst (handle Models cfg httpClient uuid req res)) = [None]
   \<and> map call_data (fst (handle CatchAll cfg httpClient uuid req res))
     = [if req_verb req \<noteq> ''GET'' \<and> req_verb req \<noteq> ''HEAD''
        then Some (JObj (req_body req)) else None]"
  by (simp add: post_chat_completions_def post_completions_def get_models_def catch_all_def
        dispatch_data Let_def split: sum.splits)

text \<open>
  Claim C6 as stated fails: for an empty body \<open>POST /v1/completions\<close> sends the empty
  object upstream, while normalization of the same body adds \<open>query_id\<close>, \<open>model\<close>
  and \<open>stream\<close>.
\<close>

theorem completions_not_normalized:
  "map call_data (fst (handle Completions (example_config\<lparr>enableStream := False\<rparr>)
        rejecting_client ''u'' (example_request\<lparr>req_body := []\<rparr>) fresh_response)) = [Some (JObj [])]
   \<and> normalize_body (example_config\<lparr>enableStream := False\<rparr>) ''u'' []
        = Inr [(''query_id'', JStr ''query_u''), (''model'', JStr ''hunyuan''), (''stream'', JBool False)]"
  by (simp add: post_completions_def dispatch_data example_request_def get_prop_def
        normalize_body_def example_config_def set_prop_def)

section \<open>Outbound headers\<close>

lemma lower_case_literals:
  "lower_case ''Authorization'' = ''authorization''"
  "lower_case ''Wsid'' = ''wsid''"
  "lower_case ''Content-Type'' = ''content-type''"
  "lower_case ''authorization'' = ''authorization''"
  "lower_case ''wsid'' = ''wsid''"
  by (simp_all add: lower_case_def lower_char_def)

lemma buildHeaders_entries:
  assumes "(name, v) \<in> set (buildHeaders cfg authHeader contentType)"
  shows "lower_case name \<noteq> ''host''
       \<and> (lower_case name = ''authorization'' \<longrightarrow> v = processAuthHeader cfg authHeader)"
  using assms by (auto simp add: buildHeaders_def lower_case_literals)

lemma buildHeaders_authorization:
  "map_of (buildHeaders cfg authHeader contentType) ''Authorization'' = Some (processAuthHeader cfg authHeader)"
  by (simp add: buildHeaders_def)

lemma node_headers_update:
  assumes "node_headers hs" and "lower_case name = name"
  shows "node_headers (AList.update name v hs)"
  using assms
  by (simp add: node_headers_def update_keys)

lemma node_headers_delete:
  assumes "node_headers hs"
  shows "node_headers (AList.delete name hs)"
  using assms
  by (auto simp add: node_headers_def delete_keys distinct_removeAll list_all_iff)

lemma node_headers_entry:
  assumes "node_headers hs" and "(name, v) \<in> set hs"
  shows "lower_case name = name \<and> map_of hs name = Some v"
  using assms by (force simp add: node_headers_def list_all_iff)

lemma catch_all_headers_node:
  assumes "node_headers (req_headers req)"
  shows "node_headers (catch_all_headers cfg req)"
  using assms
  by (simp add: catch_all_headers_def Let_def node_headers_update node_headers_delete lower_case_literals)

lemma catch_all_headers_lookup:
  "map_of (catch_all_headers cfg req) ''host'' = None"
  "map_of (catch_all_headers cfg req) ''authorization'' = Some (processAuthHeader cfg (Some (authorization req)))"
  by (simp_all add: catch_all_headers_def Let_def delete_conv' update_conv')

lemma catch_all_headers_entries:
  assumes "node_headers (req_headers req)" and "(name, v) \<in> set (catch_all_headers cfg req)"
  shows "lower_case name \<noteq> ''host''
       \<and> (lower_case name = ''authorization'' \<longrightarrow> v = processAuthHeader cfg (Some (authorization req)))"
proof -
  from assms have "lower_case name = name" and "map_of (catch_all_headers cfg req) name = Some v"
    using node_headers_entry [OF catch_all_headers_node] by blast+
  then show ?thesis
    by (auto simp add: catch_all_headers_lookup)
qed

lemma handle_calls:
  assumes "call \<in> set (fst (handle ep cfg httpClient uuid req res))"
  shows "call_headers call =
          (case ep of
             CatchAll \<Rightarrow> catch_all_headers cfg req
           | Models \<Rightarrow> AList.delete ''Content-Type'' (buildHeaders cfg (Some (authorization req)) ''application/json'')
           | _ \<Rightarrow> buildHeaders cfg (Some (authorization req)) ''application/json'')"
  using assms
  by (cases ep)
     (auto simp add: post_chat_completions_def post_completions_def get_models_def catch_all_def
        dispatch_def handleStreaming_def handleNonStreaming_def Let_def
        post_call_def post_stream_call_def split: sum.splits if_splits)

lemma buildHeaders_venus_authorization:
  "map_of (buildHeaders_venus cfg authHeader contentType) ''Authorization''
     = Some (targetApiKeyPrefix cfg @ token cfg)"
  by (simp add: buildHeaders_venus_def processAuthHeader_venus_def Let_def update_conv'
        split: option.splits)

text \<open>The same for the catch-all of \<open>venus.js\<close>: no \<open>host\<close>, and the translated value.\<close>

lemma catch_all_headers_venus_lookup:
  "map_of (catch_all_headers_venus cfg req) ''host'' = None"
  "map_of (catch_all_headers_venus cfg req) ''authorization''
     = Some (processAuthHeader_venus cfg (Some (authorization req)))"
  by (simp_all add: catch_all_headers_venus_def Let_def delete_conv' update_conv'
        split: option.splits)

text \<open>
  Claim C8.  For a request whose headers are as Node delivers them, every call a
  route makes upstream carries no header named \<open>host\<close> in any spelling, every header
  named \<open>authorization\<close> in any spelling holds the value \<open>processAuthHeader\<close> returns,
  and that header is present: under the key \<open>Authorization\<close> on the three
  specialized routes, under \<open>authorization\<close> on the catch-all.
\<close>

theorem outbound_headers_translated:
  assumes "node_headers (req_headers req)"
      and "call \<in> set (fst (handle ep cfg httpClient uuid req res))"
  shows "(\<forall>(name, v) \<in> set (call_headers call).
            lower_case name \<noteq> ''host''
            \<and> (lower_case name = ''authorization''
                 \<longrightarrow> v = processAuthHeader cfg (Some (authorization req))))
       \<and> map_of (call_headers call) (if ep = CatchAll then ''authorization'' else ''Authorization'')
           = Some (processAuthHeader cfg (Some (authorization req)))"
proof (cases ep)
  case CatchAll
  with assms(2) have "call_headers call = catch_all_headers cfg req"
    using handle_calls by fastforce
  with assms(1) CatchAll show ?thesis
    using catch_all_headers_entries by (auto simp add: catch_all_headers_lookup)
next
  case Models
  with assms(2) have hs: "call_headers call
      = AList.delete ''Content-Type'' (buildHeaders cfg (Some (authorization req)) ''application/json'')"
    using handle_calls by fastforce
  then have "set (call_headers call) \<subseteq> set (buildHeaders cfg (Some (authorization req)) ''application/json'')"
    by (auto simp add: AList.delete_eq)
  with hs Models show ?thesis
    using buildHeaders_entries by (fastforce simp add: delete_conv' buildHeaders_authorization)
next
  case ChatCompletions
  with assms(2) have "call_headers call = buildHeaders cfg (Some (authorization req)) ''application/json''"
    using handle_calls by fastforce
  with ChatCompletions show ?thesis
    using buildHeaders_entries by (fastforce simp add: buildHeaders_authorization)
next
  case Completions
  with assms(2) have "call_headers call = buildHeaders cfg (Some (authorization req)) ''application/json''"
    using handle_calls by fastforce
  with Completions show ?thesis
    using buildHeaders_entries by (fastforce simp add: buildHeaders_authorization)
qed


theorem outbound_headers_translated_witness:
  "node_headers (req_headers example_request)
   \<and> fst (handle CatchAll example_config rejecting_client ''u'' example_request fresh_response)
      = [\<lparr>call_verb = ''POST'', call_url = ''http://upstream/v1/chat/completions'',
          call_headers = [(''authorization'', ''Bearer up-ABC''),
                          (''content-type'', ''application/json''), (''wsid'', ''ws-1'')],
          call_data = Some (JObj [(''messages'', JArr [user_message])]),
          call_params = [], call_stream = False, call_timeout = None\<rparr>]
   \<and> processAuthHeader example_config (Some (authorization example_request)) = ''Bearer up-ABC''"
  using outbound_headers_translated [of example_request
          "hd (fst (handle CatchAll example_config rejecting_client ''u'' example_request fresh_response))"
          CatchAll example_config rejecting_client "''u''" fresh_response]
  by (simp add: node_headers_def example_request_def lower_case_def lower_char_def
        catch_all_def catch_all_headers_def Let_def example_config_def processAuthHeader_def
        authorization_def)


section \<open>Failures on the synchronous paths\<close>






end
